theory Spec2Isabelle
  imports Main "HOL-Library.Word"
begin

section \<open>Python values, exceptions and the VISA transport\<close>

text \<open>
  The drivers talk to one instrument through a pyvisa resource (\<open>self.device\<close>). The
  resource is an external collaborator: its state is a type parameter \<open>'t\<close>, and its
  methods are the fields of a record of state-passing functions, each of which either
  raises or returns. Exceptions are values. \<open>KeyboardInterrupt\<close> and \<open>SystemExit\<close> derive
  from \<open>BaseException\<close> but not from \<open>Exception\<close>: a transport call that blocks can raise
  them, \<open>except Exception\<close> lets them pass and only a bare \<open>except:\<close> catches them. The
  other values are subclasses of \<open>Exception\<close>. What raises in the model is a transport
  call or a built-in; \<open>sleep\<close> and \<open>print\<close> return.
\<close>

datatype exn =
    VisaIOError | ValueError | TypeError | AttributeError | OtherException
  | KeyboardInterrupt | SystemExit

text \<open>\<open>isinstance(e, Exception)\<close>: what an \<open>except Exception\<close> clause catches.\<close>

definition is_Exception :: "exn \<Rightarrow> bool" where
  "is_Exception e = (case e of KeyboardInterrupt \<Rightarrow> False | SystemExit \<Rightarrow> False | _ \<Rightarrow> True)"

type_synonym bytes = "8 word list"

record 't transport =
  dev_write :: "string \<Rightarrow> 't \<Rightarrow> (exn + unit) \<times> 't"
  dev_query :: "string \<Rightarrow> 't \<Rightarrow> (exn + string) \<times> 't"
  dev_read_raw :: "'t \<Rightarrow> (exn + bytes) \<times> 't"
  dev_set_timeout :: "nat \<Rightarrow> 't \<Rightarrow> exn + 't"

text \<open>
  The built-ins \<open>int()\<close> and \<open>float()\<close> applied to a response string are parameters too:
  they are Python's, not the repository's, and floating-point values stay abstract
  (type \<open>'f\<close>). Python's raise \<open>ValueError\<close> on a string they cannot parse; the model
  allows them any exception.
\<close>

record 'f builtins =
  py_int :: "string \<Rightarrow> exn + int"
  py_float :: "string \<Rightarrow> exn + 'f"

text \<open>
  What a run does is recorded next to the device state: every transport call with its
  outcome and every \<open>sleep\<close> (in milliseconds) in \<open>trace\<close>, in program order, and every
  \<open>print\<close> (the literal prefix and the exception formatted after it) in \<open>stdout\<close>.
\<close>

datatype event =
    Wrote string "exn + unit"
  | Queried string "exn + string"
  | ReadRaw "exn + bytes"
  | Slept nat

record 't world =
  dev :: 't
  trace :: "event list"
  stdout :: "(string \<times> exn) list"

type_synonym ('t, 'a) io = "'t world \<Rightarrow> (exn + 'a) \<times> 't world"

definition io_return :: "'a \<Rightarrow> ('t, 'a) io" where
  "io_return x w = (Inr x, w)"

definition io_lift :: "exn + 'a \<Rightarrow> ('t, 'a) io" where
  "io_lift r w = (r, w)"

definition io_bind :: "('t, 'a) io \<Rightarrow> ('a \<Rightarrow> ('t, 'b) io) \<Rightarrow> ('t, 'b) io" where
  "io_bind m f w = (case m w of (Inl e, w') \<Rightarrow> (Inl e, w') | (Inr x, w') \<Rightarrow> f x w')"

text \<open>
  \<open>try: m except Exception as e: h\<close>. An exception that is not an \<open>Exception\<close> passes the
  clause and is raised to the caller.
\<close>

definition try_except_Exception ::
  "('t, 'a) io \<Rightarrow> (exn \<Rightarrow> ('t, 'a) io) \<Rightarrow> ('t, 'a) io" where
  "try_except_Exception m h w =
     (case m w of
        (Inl e, w') \<Rightarrow> if is_Exception e then h e w' else (Inl e, w')
      | (Inr x, w') \<Rightarrow> (Inr x, w'))"

definition device_write :: "'t transport \<Rightarrow> string \<Rightarrow> ('t, unit) io" where
  "device_write T command w =
     (case dev_write T command (dev w) of
        (r, d) \<Rightarrow> (r, w\<lparr>dev := d, trace := trace w @ [Wrote command r]\<rparr>))"

definition device_query :: "'t transport \<Rightarrow> string \<Rightarrow> ('t, string) io" where
  "device_query T command w =
     (case dev_query T command (dev w) of
        (r, d) \<Rightarrow> (r, w\<lparr>dev := d, trace := trace w @ [Queried command r]\<rparr>))"

definition device_read_raw :: "'t transport \<Rightarrow> ('t, bytes) io" where
  "device_read_raw T w =
     (case dev_read_raw T (dev w) of
        (r, d) \<Rightarrow> (r, w\<lparr>dev := d, trace := trace w @ [ReadRaw r]\<rparr>))"

definition sleep :: "nat \<Rightarrow> ('t, unit) io" where
  "sleep ms w = (Inr (), w\<lparr>trace := trace w @ [Slept ms]\<rparr>)"

definition print :: "string \<Rightarrow> exn \<Rightarrow> ('t, unit) io" where
  "print prefix e w = (Inr (), w\<lparr>stdout := stdout w @ [(prefix, e)]\<rparr>)"

section \<open>Tek\_DPO4000.py\<close>

subsection \<open>Status commands\<close>

definition wai :: "'t transport \<Rightarrow> ('t, unit) io" where
  "wai T = device_write T ''*WAI''"

text \<open>
  One iteration of the \<open>while True\<close> loop of \<open>wait_until_ready\<close>: the result \<open>True\<close> is
  the \<open>break\<close>. The \<open>sleep(0.1)\<close>, 100 ms, is the body of the \<open>except Exception\<close> clause;
  what the clause does not catch leaves the loop and the method.
\<close>

definition wait_until_ready_body :: "'f builtins \<Rightarrow> 't transport \<Rightarrow> ('t, bool) io" where
  "wait_until_ready_body B T =
     try_except_Exception
       (io_bind (device_query T ''*OPC?'') (\<lambda>resp.
        io_bind (io_lift (py_int B resp)) (\<lambda>n.
        io_return (n \<noteq> 0))))
       (\<lambda>e. io_bind (sleep 100) (\<lambda>_. io_return False))"

partial_function (option) wait_until_ready ::
  "'f builtins \<Rightarrow> 't transport \<Rightarrow> 't world \<Rightarrow> ((exn + unit) \<times> 't world) option" where
  "wait_until_ready B T w =
     (case wait_until_ready_body B T w of
        (Inl e, w') \<Rightarrow> Some (Inl e, w')
      | (Inr brk, w') \<Rightarrow> if brk then Some (Inr (), w') else wait_until_ready B T w')"

subsection \<open>Data commands\<close>

definition data_source :: "'t transport \<Rightarrow> string \<Rightarrow> ('t, unit) io" where
  "data_source T chan = device_write T (''DATA:SOU CH'' @ chan)"

definition data_width :: "'t transport \<Rightarrow> string \<Rightarrow> ('t, unit) io" where
  "data_width T width = device_write T (''DATA:WIDTH '' @ width)"

definition data_encoding :: "'t transport \<Rightarrow> string \<Rightarrow> ('t, unit) io" where
  "data_encoding T enc = device_write T (''DATA:ENC '' @ enc)"

subsection \<open>Waveform preamble commands\<close>

definition wfmpre_ymult :: "'f builtins \<Rightarrow> 't transport \<Rightarrow> ('t, 'f option) io" where
  "wfmpre_ymult B T =
     try_except_Exception
       (io_bind (wai T) (\<lambda>_.
        io_bind (device_query T ''WFMPRE:YMULT?'') (\<lambda>resp.
        io_bind (io_lift (py_float B resp)) (\<lambda>ymult.
        io_return (Some ymult)))))
       (\<lambda>e. io_bind (print ''Error querying YMULT: '' e) (\<lambda>_. io_return None))"

definition wfmpre_yzero :: "'f builtins \<Rightarrow> 't transport \<Rightarrow> ('t, 'f option) io" where
  "wfmpre_yzero B T =
     try_except_Exception
       (io_bind (device_query T ''WFMPRE:YZERO?'') (\<lambda>resp.
        io_bind (io_lift (py_float B resp)) (\<lambda>yzero.
        io_return (Some yzero))))
       (\<lambda>e. io_bind (print ''Error querying YZERO: '' e) (\<lambda>_. io_return None))"

definition wfmpre_yoff :: "'f builtins \<Rightarrow> 't transport \<Rightarrow> ('t, 'f option) io" where
  "wfmpre_yoff B T =
     try_except_Exception
       (io_bind (device_query T ''WFMPRE:YOFF?'') (\<lambda>resp.
        io_bind (io_lift (py_float B resp)) (\<lambda>yoff.
        io_return (Some yoff))))
       (\<lambda>e. io_bind (print ''Error querying YOFF: '' e) (\<lambda>_. io_return None))"

definition wfmpre_xincr :: "'f builtins \<Rightarrow> 't transport \<Rightarrow> ('t, 'f option) io" where
  "wfmpre_xincr B T =
     try_except_Exception
       (io_bind (device_query T ''WFMPRE:XINCR?'') (\<lambda>resp.
        io_bind (io_lift (py_float B resp)) (\<lambda>xincr.
        io_return (Some xincr))))
       (\<lambda>e. io_bind (print ''Error querying XINCR: '' e) (\<lambda>_. io_return None))"

subsection \<open>Data collection\<close>

text \<open>
  \<open>float(x)\<close> where \<open>x\<close> is what a preamble method returned: a float is returned as it
  is, \<open>None\<close> raises \<open>TypeError\<close>.
\<close>

definition float_of_result :: "'f option \<Rightarrow> exn + 'f" where
  "float_of_result v = (case v of None \<Rightarrow> Inl TypeError | Some x \<Rightarrow> Inr x)"

type_synonym 'f waveform = "'f \<times> 'f option \<times> 'f option \<times> 'f option \<times> bytes"

text \<open>
  The body of the \<open>try\<close> in \<open>acquire_waveform\<close>: one attempt. The locals it assigns are
  its result; a failed attempt's locals are all assigned again before the \<open>return\<close>.
\<close>

definition acquire_waveform_body ::
  "'f builtins \<Rightarrow> 't transport \<Rightarrow> string \<Rightarrow> string \<Rightarrow> string \<Rightarrow> ('t, 'f waveform) io" where
  "acquire_waveform_body B T chan width enc =
     io_bind (data_source T chan) (\<lambda>_.
     io_bind (data_width T width) (\<lambda>_.
     io_bind (data_encoding T enc) (\<lambda>_.
     io_bind (wfmpre_ymult B T) (\<lambda>v.
     io_bind (io_lift (float_of_result v)) (\<lambda>ymult.
     io_bind (wfmpre_yzero B T) (\<lambda>yzero.
     io_bind (wfmpre_yoff B T) (\<lambda>yoff.
     io_bind (wfmpre_xincr B T) (\<lambda>xincr.
     io_bind (device_write T ''CURVE?'') (\<lambda>_.
     io_bind (device_read_raw T) (\<lambda>data.
     io_return (ymult, yzero, yoff, xincr, data)))))))))))"

text \<open>
  The \<open>while good == 0\<close> loop: a successful attempt sets \<open>good = 1\<close> and the function
  returns its values; the bare \<open>except:\<close> catches every exception, \<open>KeyboardInterrupt\<close>
  and \<open>SystemExit\<close> too, leaves \<open>good = 0\<close> and the loop runs the body again. A run that
  never leaves the loop is \<open>None\<close>.
\<close>

partial_function (option) acquire_waveform ::
  "'f builtins \<Rightarrow> 't transport \<Rightarrow> string \<Rightarrow> string \<Rightarrow> string \<Rightarrow> 't world
     \<Rightarrow> ('f waveform \<times> 't world) option" where
  "acquire_waveform B T chan width enc w =
     (case acquire_waveform_body B T chan width enc w of
        (Inr r, w') \<Rightarrow> Some (r, w')
      | (Inl e, w') \<Rightarrow> acquire_waveform B T chan width enc w')"

section \<open>visa\_utils.py\<close>

text \<open>
  \<open>pyvisa.ResourceManager()\<close> either raises or gives a resource manager; a resource
  manager is its \<open>open_resource\<close> method, which either raises or gives the opened
  resource (an object, never \<open>None\<close>).
\<close>

type_synonym 't resource_manager = "string \<Rightarrow> exn + 't"

record 't pyvisa =
  ResourceManager :: "exn + 't resource_manager"

definition get_resource_manager :: "'t pyvisa \<Rightarrow> exn + 't resource_manager" where
  "get_resource_manager V = ResourceManager V"

type_synonym 't connection = "'t option \<times> string option \<times> string"

definition connect_usb_instrument :: "'t pyvisa \<Rightarrow> string \<Rightarrow> exn + 't connection" where
  "connect_usb_instrument V address =
     (case get_resource_manager V of
        Inl e \<Rightarrow> Inl e
      | Inr rm \<Rightarrow>
          (case rm address of
             Inr device \<Rightarrow> Inr (Some device, Some address, ''Connected'')
           | Inl e \<Rightarrow>
               if e = VisaIOError then Inr (None, None, ''Not Connected'') else Inl e))"

text \<open>\<open>str(port)\<close> inside the f-string: the decimal digits of an integer.\<close>

fun str_nat :: "nat \<Rightarrow> string" where
  "str_nat n =
     (if n < 10 then [''0123456789'' ! n]
      else str_nat (n div 10) @ [''0123456789'' ! (n mod 10)])"

declare str_nat.simps [simp del]

definition str_int :: "int \<Rightarrow> string" where
  "str_int i = (if i < 0 then CHR ''-'' # str_nat (nat (- i)) else str_nat (nat i))"

definition resource_str :: "string \<Rightarrow> int \<Rightarrow> bool \<Rightarrow> string" where
  "resource_str ip_address port use_socket =
     (if use_socket then ''TCPIP0::'' @ ip_address @ ''::'' @ str_int port @ ''::SOCKET''
      else ''TCPIP0::'' @ ip_address @ ''::INSTR'')"

definition connect_ethernet_instrument ::
  "'t pyvisa \<Rightarrow> string \<Rightarrow> int \<Rightarrow> bool \<Rightarrow> exn + 't connection" where
  "connect_ethernet_instrument V ip_address port use_socket =
     (case get_resource_manager V of
        Inl e \<Rightarrow> Inl e
      | Inr rm \<Rightarrow>
          (case rm (resource_str ip_address port use_socket) of
             Inr device \<Rightarrow>
               Inr (Some device, Some (resource_str ip_address port use_socket), ''Connected'')
           | Inl e \<Rightarrow>
               if e = VisaIOError then Inr (None, None, ''Not Connected'') else Inl e))"

section \<open>DPO4000.\_\_init\_\_\<close>

record 't DPO4000 =
  device :: "'t option"
  address :: "string option"
  status :: string
  connected_with :: "string option"

text \<open>
  \<open>self.device.timeout = TIMEOUT\<close>: on \<open>None\<close> the attribute assignment raises
  \<open>AttributeError\<close>; on a resource it is the transport's timeout setter.
\<close>

definition set_device_timeout ::
  "'t transport \<Rightarrow> nat \<Rightarrow> 't DPO4000 \<Rightarrow> exn + 't DPO4000" where
  "set_device_timeout T ms self =
     (case device self of
        None \<Rightarrow> Inl AttributeError
      | Some d \<Rightarrow>
          (case dev_set_timeout T ms d of
             Inl e \<Rightarrow> Inl e
           | Inr d' \<Rightarrow> Inr (self\<lparr>device := Some d'\<rparr>)))"

text \<open>
  With a \<open>connection_method\<close> that is neither \<open>"USB"\<close> nor \<open>"IP"\<close> no attribute has been
  assigned when \<open>self.device\<close> is read, which raises \<open>AttributeError\<close>.
\<close>

definition DPO4000_init ::
  "'t transport \<Rightarrow> 't pyvisa \<Rightarrow> string \<Rightarrow> string \<Rightarrow> exn + 't DPO4000" where
  "DPO4000_init T V connection_method addr =
     (let TIMEOUT = 20000 in
      if connection_method = ''USB'' then
        (case connect_usb_instrument V addr of
           Inl e \<Rightarrow> Inl e
         | Inr (d, a, st) \<Rightarrow>
             set_device_timeout T TIMEOUT
               \<lparr>device = d, address = a, status = st,
                connected_with = (if st = ''Connected'' then Some ''USB'' else None)\<rparr>)
      else if connection_method = ''IP'' then
        (case connect_ethernet_instrument V addr 5025 False of
           Inl e \<Rightarrow> Inl e
         | Inr (d, a, st) \<Rightarrow>
             set_device_timeout T TIMEOUT
               \<lparr>device = d, address = a, status = st,
                connected_with = (if st = ''Connected'' then Some ''Ethernet'' else None)\<rparr>)
      else Inl AttributeError)"

section \<open>Test doubles\<close>

text \<open>
  A scripted transport for the examples: its state is the list of the replies still to
  come, and every call consumes one. A call that finds no reply left, or a reply of the
  wrong kind, times out (\<open>VisaIOError\<close>).
\<close>

datatype reply = Raises exn | Accepts | Answers string | Sends bytes

definition mock :: "reply list transport" where
  "mock =
     \<lparr>dev_write = (\<lambda>command script.
        case script of
          [] \<Rightarrow> (Inl VisaIOError, [])
        | Raises e # rest \<Rightarrow> (Inl e, rest)
        | _ # rest \<Rightarrow> (Inr (), rest)),
      dev_query = (\<lambda>command script.
        case script of
          [] \<Rightarrow> (Inl VisaIOError, [])
        | Raises e # rest \<Rightarrow> (Inl e, rest)
        | Answers s # rest \<Rightarrow> (Inr s, rest)
        | _ # rest \<Rightarrow> (Inl VisaIOError, rest)),
      dev_read_raw = (\<lambda>script.
        case script of
          [] \<Rightarrow> (Inl VisaIOError, [])
        | Raises e # rest \<Rightarrow> (Inl e, rest)
        | Sends b # rest \<Rightarrow> (Inr b, rest)
        | _ # rest \<Rightarrow> (Inl VisaIOError, rest)),
      dev_set_timeout = (\<lambda>ms script. Inr script)\<rparr>"



text \<open>
  A stand-in for \<open>int()\<close> and \<open>float()\<close> in the examples, not Python's parsers: it
  accepts a non-empty string of ASCII digits only and raises \<open>ValueError\<close> on everything
  else, where Python also accepts signs, surrounding whitespace, underscores and, for
  \<open>float()\<close>, a fraction and an exponent, and where \<open>float()\<close> rounds a long digit string.
  The examples give it the responses \<open>0\<close>, \<open>1\<close>, \<open>2\<close>, \<open>4\<close>, \<open>127\<close> and \<open>busy\<close> only: Python
  parses the first five to the same numbers and raises \<open>ValueError\<close> on the last. No
  general theorem depends on it.
\<close>

fun position :: "char \<Rightarrow> string \<Rightarrow> int \<Rightarrow> int option" where
  "position c [] i = None"
| "position c (x # xs) i = (if c = x then Some i else position c xs (i + 1))"

definition digit_value :: "char \<Rightarrow> int option" where
  "digit_value c = position c ''0123456789'' 0"

fun digits_value :: "int \<Rightarrow> string \<Rightarrow> int option" where
  "digits_value a [] = Some a"
| "digits_value a (c # cs) =
     (case digit_value c of None \<Rightarrow> None | Some d \<Rightarrow> digits_value (10 * a + d) cs)"

definition whole_number :: "string \<Rightarrow> exn + int" where
  "whole_number s =
     (if s = [] then Inl ValueError
      else case digits_value 0 s of None \<Rightarrow> Inl ValueError | Some n \<Rightarrow> Inr n)"

definition whole_numbers :: "int builtins" where
  "whole_numbers = \<lparr>py_int = whole_number, py_float = whole_number\<rparr>"

text \<open>
  A VISA library for the examples: two resources can be opened (each a scripted
  transport with nothing left to reply), every other name raises \<open>VisaIOError\<close>.
\<close>

definition lab :: "reply list pyvisa" where
  "lab =
     \<lparr>ResourceManager = Inr (\<lambda>name.
        if name = ''USB0::1689::1025::C1::INSTR'' then Inr []
        else if name = ''TCPIP0::10.0.142.3::INSTR'' then Inr []
        else Inl VisaIOError)\<rparr>"

definition start :: "'t \<Rightarrow> 't world" where
  "start d = \<lparr>dev = d, trace = [], stdout = []\<rparr>"

text \<open>
  The replies of a clean acquisition attempt and of one whose raw read raises, and the
  events each leaves for channel 1, width 1, encoding RPB.
\<close>

definition replies_clean :: "reply list" where
  "replies_clean =
     [Accepts, Accepts, Accepts, Accepts, Answers ''2'', Answers ''0'', Answers ''127'',
      Answers ''4'', Accepts, Sends [1, 2, 3]]"

definition replies_curve_raises :: "reply list" where
  "replies_curve_raises =
     [Accepts, Accepts, Accepts, Accepts, Answers ''2'', Answers ''0'', Answers ''127'',
      Answers ''4'', Accepts, Raises VisaIOError]"

definition events_clean :: "event list" where
  "events_clean =
     [Wrote ''DATA:SOU CH1'' (Inr ()), Wrote ''DATA:WIDTH 1'' (Inr ()),
      Wrote ''DATA:ENC RPB'' (Inr ()), Wrote ''*WAI'' (Inr ()),
      Queried ''WFMPRE:YMULT?'' (Inr ''2''), Queried ''WFMPRE:YZERO?'' (Inr ''0''),
      Queried ''WFMPRE:YOFF?'' (Inr ''127''), Queried ''WFMPRE:XINCR?'' (Inr ''4''),
      Wrote ''CURVE?'' (Inr ()), ReadRaw (Inr [1, 2, 3])]"

definition events_curve_raises :: "event list" where
  "events_curve_raises =
     [Wrote ''DATA:SOU CH1'' (Inr ()), Wrote ''DATA:WIDTH 1'' (Inr ()),
      Wrote ''DATA:ENC RPB'' (Inr ()), Wrote ''*WAI'' (Inr ()),
      Queried ''WFMPRE:YMULT?'' (Inr ''2''), Queried ''WFMPRE:YZERO?'' (Inr ''0''),
      Queried ''WFMPRE:YOFF?'' (Inr ''127''), Queried ''WFMPRE:XINCR?'' (Inr ''4''),
      Wrote ''CURVE?'' (Inr ()), ReadRaw (Inl VisaIOError)]"

section \<open>Reading a trace\<close>

text \<open>What a trace event asked of the transport, without the outcome.\<close>

datatype action = Write string | Query string | Read_raw | Sleep nat

fun action_of :: "event \<Rightarrow> action" where
  "action_of (Wrote c r) = Write c"
| "action_of (Queried c r) = Query c"
| "action_of (ReadRaw r) = Read_raw"
| "action_of (Slept ms) = Sleep ms"

text \<open>
  The value a preamble query yields from the outcome of its transport call: the parsed
  number, or \<open>None\<close> when the call raised or the response is not numeric. A raise that
  \<open>except Exception\<close> does not catch, from the call or from \<open>float()\<close>, is escaping: the
  method then yields no value and raises it.
\<close>

definition parsed :: "'f builtins \<Rightarrow> exn + string \<Rightarrow> 'f option" where
  "parsed B res =
     (case res of
        Inl e \<Rightarrow> None
      | Inr resp \<Rightarrow> (case py_float B resp of Inl e \<Rightarrow> None | Inr x \<Rightarrow> Some x))"

definition escaping :: "'f builtins \<Rightarrow> exn + string \<Rightarrow> bool" where
  "escaping B res =
     (case res of
        Inl e \<Rightarrow> \<not> is_Exception e
      | Inr resp \<Rightarrow> (case py_float B resp of Inl e \<Rightarrow> \<not> is_Exception e | Inr x \<Rightarrow> False))"

text \<open>
  What a preamble query method gives its caller, from the outcome of its query: the
  parsed number; \<open>None\<close> when the query or \<open>float()\<close> raised an \<open>Exception\<close>; the exception
  itself when it is not an \<open>Exception\<close>.
\<close>

definition preamble_result :: "'f builtins \<Rightarrow> exn + string \<Rightarrow> exn + 'f option" where
  "preamble_result B res =
     (case res of
        Inl e \<Rightarrow> if is_Exception e then Inr None else Inl e
      | Inr resp \<Rightarrow>
          (case py_float B resp of
             Inl e \<Rightarrow> if is_Exception e then Inr None else Inl e
           | Inr x \<Rightarrow> Inr (Some x)))"

text \<open>
  The transport calls of one full acquisition attempt, in program order:
  \<open>wfmpre_ymult\<close> writes \<open>*WAI\<close> before its query.
\<close>

definition acquisition_actions :: "string \<Rightarrow> string \<Rightarrow> string \<Rightarrow> action list" where
  "acquisition_actions chan width enc =
     [Write (''DATA:SOU CH'' @ chan), Write (''DATA:WIDTH '' @ width),
      Write (''DATA:ENC '' @ enc), Write ''*WAI'', Query ''WFMPRE:YMULT?'',
      Query ''WFMPRE:YZERO?'', Query ''WFMPRE:YOFF?'', Query ''WFMPRE:XINCR?'',
      Write ''CURVE?'', Read_raw]"

text \<open>
  A failure that ends an attempt: a write or the block read that raised, a query whose
  raise is escaping, or the gain query when it raised or its response is not numeric.
\<close>

fun aborting :: "'f builtins \<Rightarrow> event \<Rightarrow> bool" where
  "aborting B (Wrote c r) = isl r"
| "aborting B (Queried c r) = (escaping B r \<or> c = ''WFMPRE:YMULT?'' \<and> parsed B r = None)"
| "aborting B (ReadRaw r) = isl r"
| "aborting B (Slept ms) = False"

text \<open>
  A failure that the query method absorbs: the zero, offset or increment query when it
  raised an \<open>Exception\<close> or its response is not numeric.
\<close>

fun absorbed :: "'f builtins \<Rightarrow> event \<Rightarrow> bool" where
  "absorbed B (Queried c r) =
     ((c = ''WFMPRE:YZERO?'' \<or> c = ''WFMPRE:YOFF?'' \<or> c = ''WFMPRE:XINCR?'') \<and>
      parsed B r = None \<and> \<not> escaping B r)"
| "absorbed B ev = False"

text \<open>
  The outcome of an \<open>*OPC?\<close> query as \<open>wait_until_ready\<close> reads it: truthy when the
  response parses to a nonzero integer; failed when the call or \<open>int()\<close> raised an
  \<open>Exception\<close>, which the \<open>except\<close> clause catches; escaped when what they raised is not
  an \<open>Exception\<close>, which ends the method with that exception.
\<close>

definition opc_raised :: "'f builtins \<Rightarrow> exn + string \<Rightarrow> exn option" where
  "opc_raised B res =
     (case res of
        Inl e \<Rightarrow> Some e
      | Inr resp \<Rightarrow> (case py_int B resp of Inl e \<Rightarrow> Some e | Inr n \<Rightarrow> None))"

definition opc_truthy :: "'f builtins \<Rightarrow> exn + string \<Rightarrow> bool" where
  "opc_truthy B res =
     (case res of
        Inl e \<Rightarrow> False
      | Inr resp \<Rightarrow> (case py_int B resp of Inl e \<Rightarrow> False | Inr n \<Rightarrow> n \<noteq> 0))"

definition opc_failed :: "'f builtins \<Rightarrow> exn + string \<Rightarrow> bool" where
  "opc_failed B res = (case opc_raised B res of Some e \<Rightarrow> is_Exception e | None \<Rightarrow> False)"

definition opc_escaped :: "'f builtins \<Rightarrow> exn + string \<Rightarrow> bool" where
  "opc_escaped B res =
     (case opc_raised B res of Some e \<Rightarrow> \<not> is_Exception e | None \<Rightarrow> False)"

text \<open>What one iteration of the poll yields: the \<open>break\<close> flag, or the escaped exception.\<close>

definition opc_result :: "'f builtins \<Rightarrow> exn + string \<Rightarrow> exn + bool" where
  "opc_result B res =
     (case opc_raised B res of
        Some e \<Rightarrow> if is_Exception e then Inr False else Inl e
      | None \<Rightarrow> Inr (opc_truthy B res))"

text \<open>
  The trace that a sequence of \<open>*OPC?\<close> outcomes leaves behind: each query, followed by
  the 0.1 s sleep when it failed. A poll that ended saw outcomes of which the last one,
  and only the last one, is truthy or escaped.
\<close>

fun poll_events :: "'f builtins \<Rightarrow> (exn + string) list \<Rightarrow> event list" where
  "poll_events B [] = []"
| "poll_events B (res # rest) =
     Queried ''*OPC?'' res # (if opc_failed B res then [Slept 100] else []) @ poll_events B rest"

fun polled :: "'f builtins \<Rightarrow> (exn + string) list \<Rightarrow> bool" where
  "polled B [] = False"
| "polled B [res] = (opc_truthy B res \<or> opc_escaped B res)"
| "polled B (res # rest) = (\<not> opc_truthy B res \<and> \<not> opc_escaped B res \<and> polled B rest)"

text \<open>
  A trace of queries and sleeps in which a sleep of 100 ms follows each failed query
  and there is no other sleep.
\<close>

fun fixed_sleeps :: "'f builtins \<Rightarrow> event list \<Rightarrow> bool" where
  "fixed_sleeps B [] = True"
| "fixed_sleeps B (Queried c res # Slept ms # rest) =
     (opc_failed B res \<and> ms = 100 \<and> fixed_sleeps B rest)"
| "fixed_sleeps B (Queried c res # rest) = (\<not> opc_failed B res \<and> fixed_sleeps B rest)"
| "fixed_sleeps B (ev # rest) = False"

fun is_sleep :: "event \<Rightarrow> bool" where
  "is_sleep (Slept ms) = True"
| "is_sleep ev = False"

text \<open>
  The events of one acquisition attempt: a non-empty prefix of the full sequence of
  calls, in which only the last event can be a failure that ends the attempt; the
  attempt failed when it is one, and ran the full sequence when it is not.
\<close>

definition attempt_shape ::
  "'f builtins \<Rightarrow> string \<Rightarrow> string \<Rightarrow> string \<Rightarrow> bool \<Rightarrow> event list \<Rightarrow> bool" where
  "attempt_shape B chan width enc failed evs \<longleftrightarrow>
     evs \<noteq> [] \<and>
     map action_of evs = take (length evs) (acquisition_actions chan width enc) \<and>
     list_all (\<lambda>ev. \<not> aborting B ev) (butlast evs) \<and>
     \<not> absorbed B (last evs) \<and>
     (failed \<longleftrightarrow> aborting B (last evs)) \<and>
     (failed \<or> length evs = 10)"

text \<open>
  The command sequence as the specification lists it (the block read follows it):
  select, width, encoding, the four preamble queries, \<open>CURVE?\<close>.
\<close>

definition claimed_actions :: "string \<Rightarrow> string \<Rightarrow> string \<Rightarrow> action list" where
  "claimed_actions chan width enc =
     [Write (''DATA:SOU CH'' @ chan), Write (''DATA:WIDTH '' @ width),
      Write (''DATA:ENC '' @ enc), Query ''WFMPRE:YMULT?'', Query ''WFMPRE:YZERO?'',
      Query ''WFMPRE:YOFF?'', Query ''WFMPRE:XINCR?'', Write ''CURVE?'']"

text \<open>
  A step that succeeded: the call returned, and a query's response is numeric. An
  attempt that fails on the \<open>CURVE?\<close> block read: every step before succeeded, and the
  last call, the \<open>CURVE?\<close> write or the raw read, raised.
\<close>

fun succeeded :: "'f builtins \<Rightarrow> event \<Rightarrow> bool" where
  "succeeded B (Wrote c r) = (\<not> isl r)"
| "succeeded B (Queried c r) = (parsed B r \<noteq> None)"
| "succeeded B (ReadRaw r) = (\<not> isl r)"
| "succeeded B (Slept ms) = True"

fun curve_raised :: "event \<Rightarrow> bool" where
  "curve_raised (Wrote c r) = (c = ''CURVE?'' \<and> isl r)"
| "curve_raised (ReadRaw r) = isl r"
| "curve_raised ev = False"

definition curve_failure :: "'f builtins \<Rightarrow> event list \<Rightarrow> bool" where
  "curve_failure B evs \<longleftrightarrow>
     evs \<noteq> [] \<and> list_all (succeeded B) (butlast evs) \<and> curve_raised (last evs)"



section \<open>Properties\<close>

lemmas io_defs = io_return_def io_lift_def io_bind_def try_except_Exception_def device_write_def
  device_query_def device_read_raw_def sleep_def print_def

lemmas mock_defs = mock_def start_def whole_numbers_def whole_number_def digit_value_def
  is_Exception_def

lemmas sample_defs = replies_clean_def replies_curve_raises_def events_clean_def
  events_curve_raises_def

lemmas dpo_defs = acquire_waveform_body_def data_source_def data_width_def data_encoding_def
  wfmpre_ymult_def wfmpre_yzero_def wfmpre_yoff_def wfmpre_xincr_def wai_def float_of_result_def

subsection \<open>The readiness poll\<close>

lemmas opc_defs = opc_raised_def opc_truthy_def opc_failed_def opc_escaped_def opc_result_def

lemma wait_until_ready_body_run:
  "wait_until_ready_body B T w =
     (case dev_query T ''*OPC?'' (dev w) of
        (res, d) \<Rightarrow>
          (opc_result B res,
           w\<lparr>dev := d,
             trace := trace w @
               Queried ''*OPC?'' res # (if opc_failed B res then [Slept 100] else [])\<rparr>))"
  by (auto simp: wait_until_ready_body_def io_defs opc_defs split: prod.splits sum.splits)

lemma opc_result_truthy: "opc_truthy B res \<Longrightarrow> opc_result B res = Inr True"
  by (auto simp: opc_defs split: sum.splits)


lemma opc_result_Inr:
  "opc_result B res = Inr brk \<Longrightarrow> brk = opc_truthy B res \<and> \<not> opc_escaped B res"
  by (auto simp: opc_defs split: sum.splits if_splits)

lemma opc_result_Inl: "opc_result B res = Inl e \<Longrightarrow> opc_escaped B res \<and> \<not> opc_truthy B res"
  by (auto simp: opc_defs split: sum.splits if_splits)

lemma wait_until_ready_unfold:
  "wait_until_ready B T w =
     (case dev_query T ''*OPC?'' (dev w) of
        (res, d) \<Rightarrow>
          (case opc_result B res of
             Inl e \<Rightarrow> Some (Inl e, w\<lparr>dev := d, trace := trace w @ poll_events B [res]\<rparr>)
           | Inr brk \<Rightarrow>
               if brk
               then Some (Inr (), w\<lparr>dev := d, trace := trace w @ poll_events B [res]\<rparr>)
               else wait_until_ready B T
                      (w\<lparr>dev := d, trace := trace w @ poll_events B [res]\<rparr>)))"
  by (subst wait_until_ready.simps)
     (simp add: wait_until_ready_body_run split: prod.splits sum.splits)

lemma polled_Cons:
  "\<not> opc_truthy B res \<Longrightarrow> \<not> opc_escaped B res \<Longrightarrow> polled B rest \<Longrightarrow> polled B (res # rest)"
  by (cases rest) auto

lemma wait_until_ready_run_aux:
  assumes "wait_until_ready B T w = Some y"
  shows "\<exists>outcomes. trace (snd y) = trace w @ poll_events B outcomes \<and> polled B outcomes"
  using assms
proof (induction B T w y rule: wait_until_ready.raw_induct [rotated 1, consumes 1])
  case (1 loop B T w y)
  obtain res d where q: "dev_query T ''*OPC?'' (dev w) = (res, d)"
    by (cases "dev_query T ''*OPC?'' (dev w)")
  let ?w1 = "w\<lparr>dev := d, trace := trace w @ poll_events B [res]\<rparr>"
  have body: "wait_until_ready_body B T w = (opc_result B res, ?w1)"
    by (simp add: wait_until_ready_body_run q)
  have last: "trace (snd y) = trace w @ poll_events B [res] \<and> polled B [res]"
    if "snd y = ?w1" "opc_truthy B res \<or> opc_escaped B res"
    using that by simp
  show ?case
  proof (cases "opc_result B res")
    case (Inl e)
    with 1(2) body have "snd y = ?w1" by auto
    with last opc_result_Inl [OF Inl] show ?thesis by blast
  next
    case (Inr brk)
    note brk = opc_result_Inr [OF Inr]
    show ?thesis
    proof (cases brk)
      case True
      with 1(2) body Inr have "snd y = ?w1" by auto
      with last brk True show ?thesis by blast
    next
      case False
      with 1(2) body Inr have "loop B T ?w1 = Some y" by simp
      from 1(1) [OF this] obtain outcomes where
        t: "trace (snd y) = trace ?w1 @ poll_events B outcomes" and p: "polled B outcomes"
        by blast
      from t have "trace (snd y) = trace w @ poll_events B (res # outcomes)" by simp
      moreover from brk False p have "polled B (res # outcomes)"
        by (simp add: polled_Cons)
      ultimately show ?thesis by blast
    qed
  qed
qed

lemma wait_until_ready_run:
  assumes "wait_until_ready B T w = Some (r, w')"
  shows "\<exists>outcomes. trace w' = trace w @ poll_events B outcomes \<and> polled B outcomes"
  using wait_until_ready_run_aux [OF assms] by simp


lemma truthy_not_failed: "opc_truthy B res \<Longrightarrow> \<not> opc_failed B res"
  by (auto simp: opc_defs split: sum.splits)

lemma escaped_not_failed: "opc_escaped B res \<Longrightarrow> \<not> opc_failed B res"
  by (auto simp: opc_defs split: sum.splits option.splits)

lemma fixed_sleeps_poll_events: "polled B outcomes \<Longrightarrow> fixed_sleeps B (poll_events B outcomes)"
proof (induction outcomes rule: polled.induct)
  case (1 B)
  then show ?case by simp
next
  case (2 B res)
  then show ?case by (auto simp: truthy_not_failed escaped_not_failed)
next
  case (3 B res v va)
  then show ?case by simp
qed

text \<open>
  C4. If the first \<open>*OPC?\<close> query returns a response that parses to a nonzero integer,
  \<open>wait_until_ready\<close> returns right after it: the run adds that one query to the trace
  and nothing else (no further query, no sleep).
\<close>

theorem wait_until_ready_immediate:
  assumes "dev_query T ''*OPC?'' (dev w) = (Inr resp, d)"
    and "py_int B resp = Inr n" and "n \<noteq> 0"
  shows "wait_until_ready B T w =
           Some (Inr (), w\<lparr>dev := d, trace := trace w @ [Queried ''*OPC?'' (Inr resp)]\<rparr>)"
  using assms
  by (subst wait_until_ready.simps) (simp add: wait_until_ready_body_run opc_defs)

theorem wait_until_ready_immediate_witness:
  "wait_until_ready whole_numbers mock (start [Answers ''1'']) =
     Some (Inr (), \<lparr>dev = [], trace = [Queried ''*OPC?'' (Inr ''1'')], stdout = []\<rparr>)"
  using wait_until_ready_immediate
    [of mock "start [Answers ''1'']" "''1''" "[]" whole_numbers 1]
  by (simp add: mock_defs)

text \<open>
  C3, as the source has it. The \<open>sleep(0.1)\<close> is inside the \<open>except\<close> clause only. A
  response that parses to 0 raises nothing, so the loop queries again at once: here two
  consecutive \<open>*OPC?\<close> queries with no sleep between them.
\<close>

theorem wait_until_ready_falsy_polls_again_at_once:
  "wait_until_ready whole_numbers mock (start [Answers ''0'', Answers ''1'']) =
     Some (Inr (),
       \<lparr>dev = [],
        trace = [Queried ''*OPC?'' (Inr ''0''), Queried ''*OPC?'' (Inr ''1'')],
        stdout = []\<rparr>)"
  by (simp add: wait_until_ready_unfold mock_defs opc_defs is_Exception_def)

text \<open>
  C3, amended. Every iteration of the poll adds its \<open>*OPC?\<close> query to the trace,
  followed by one sleep of 0.1 s exactly when the query failed (the call or \<open>int()\<close>
  raised an \<open>Exception\<close>); after a response that parses to 0 the next query follows with
  no sleep. So the trace of a run that ends is the queries in order, each failed one
  followed by its sleep, ending with the first one that is truthy or, when the call was
  interrupted, escaped.
\<close>

theorem wait_until_ready_sleeps_after_failures:
  "trace (snd (wait_until_ready_body B T w)) =
     trace w @ poll_events B [fst (dev_query T ''*OPC?'' (dev w))]
   \<and> (\<forall>r w'. wait_until_ready B T w = Some (r, w') \<longrightarrow>
        (\<exists>outcomes. trace w' = trace w @ poll_events B outcomes \<and> polled B outcomes))"
proof (intro conjI allI impI)
  show "trace (snd (wait_until_ready_body B T w)) =
     trace w @ poll_events B [fst (dev_query T ''*OPC?'' (dev w))]"
    by (simp add: wait_until_ready_body_run split: prod.splits)
  show "\<exists>outcomes. trace w' = trace w @ poll_events B outcomes \<and> polled B outcomes"
    if "wait_until_ready B T w = Some (r, w')" for r w'
    using wait_until_ready_run [OF that] by blast
qed

lemma flaky_poll:
  "wait_until_ready whole_numbers mock
     (start [Raises VisaIOError, Answers ''busy'', Answers ''0'', Answers ''1'']) =
   Some (Inr (),
     \<lparr>dev = [],
      trace = [Queried ''*OPC?'' (Inl VisaIOError), Slept 100,
               Queried ''*OPC?'' (Inr ''busy''), Slept 100,
               Queried ''*OPC?'' (Inr ''0''), Queried ''*OPC?'' (Inr ''1'')],
      stdout = []\<rparr>)"
  by (simp add: wait_until_ready_unfold mock_defs opc_defs is_Exception_def)

theorem wait_until_ready_sleeps_after_failures_witness:
  "\<exists>outcomes.
     [Queried ''*OPC?'' (Inl VisaIOError), Slept 100,
      Queried ''*OPC?'' (Inr ''busy''), Slept 100,
      Queried ''*OPC?'' (Inr ''0''), Queried ''*OPC?'' (Inr ''1'')] =
       poll_events whole_numbers outcomes \<and> polled whole_numbers outcomes"
  using wait_until_ready_sleeps_after_failures
    [where T = mock and B = whole_numbers
       and w = "start [Raises VisaIOError, Answers ''busy'', Answers ''0'', Answers ''1'']",
     THEN conjunct2, rule_format, OF flaky_poll]
  by (simp add: start_def)

subsection \<open>The preamble queries\<close>

lemma preamble_result_Inr:
  "preamble_result B res = Inr v \<Longrightarrow> v = parsed B res \<and> \<not> escaping B res"
  by (auto simp: preamble_result_def parsed_def escaping_def split: sum.splits if_splits)

lemma preamble_result_Inl:
  "preamble_result B res = Inl e \<Longrightarrow> escaping B res \<and> \<not> is_Exception e"
  by (auto simp: preamble_result_def escaping_def split: sum.splits if_splits)

lemma wfmpre_ymult_run:
  "fst (wfmpre_ymult B T w) =
     (case dev_write T ''*WAI'' (dev w) of
        (Inl e, d) \<Rightarrow> if is_Exception e then Inr None else Inl e
      | (Inr u, d) \<Rightarrow> preamble_result B (fst (dev_query T ''WFMPRE:YMULT?'' d)))"
  by (auto simp: wfmpre_ymult_def wai_def io_defs preamble_result_def
        split: prod.splits sum.splits)

lemma wfmpre_yzero_run:
  "wfmpre_yzero B T w = (r, w') \<Longrightarrow>
     r = preamble_result B (fst (dev_query T ''WFMPRE:YZERO?'' (dev w))) \<and>
     trace w' =
       trace w @ [Queried ''WFMPRE:YZERO?'' (fst (dev_query T ''WFMPRE:YZERO?'' (dev w)))]"
  by (auto simp: wfmpre_yzero_def io_defs preamble_result_def
        split: prod.splits sum.splits if_splits)

lemma wfmpre_yoff_run:
  "wfmpre_yoff B T w = (r, w') \<Longrightarrow>
     r = preamble_result B (fst (dev_query T ''WFMPRE:YOFF?'' (dev w))) \<and>
     trace w' =
       trace w @ [Queried ''WFMPRE:YOFF?'' (fst (dev_query T ''WFMPRE:YOFF?'' (dev w)))]"
  by (auto simp: wfmpre_yoff_def io_defs preamble_result_def
        split: prod.splits sum.splits if_splits)

lemma wfmpre_xincr_run:
  "wfmpre_xincr B T w = (r, w') \<Longrightarrow>
     r = preamble_result B (fst (dev_query T ''WFMPRE:XINCR?'' (dev w))) \<and>
     trace w' =
       trace w @ [Queried ''WFMPRE:XINCR?'' (fst (dev_query T ''WFMPRE:XINCR?'' (dev w)))]"
  by (auto simp: wfmpre_xincr_def io_defs preamble_result_def
        split: prod.splits sum.splits if_splits)

text \<open>
  C8, as the source has it. The handlers are \<open>except Exception\<close>, and \<open>KeyboardInterrupt\<close>
  is not an \<open>Exception\<close>: raised by the query while it waits for the instrument, it
  passes the handler of \<open>wfmpre_yzero\<close> and reaches the caller.
\<close>

theorem wfmpre_yzero_lets_interrupt_through:
  "wfmpre_yzero whole_numbers mock (start [Raises KeyboardInterrupt]) =
     (Inl KeyboardInterrupt,
      \<lparr>dev = [], trace = [Queried ''WFMPRE:YZERO?'' (Inl KeyboardInterrupt)],
       stdout = []\<rparr>)"
  by (simp add: wfmpre_yzero_def io_defs mock_defs)

text \<open>
  C8, amended. None of \<open>wfmpre_ymult\<close>, \<open>wfmpre_yzero\<close>, \<open>wfmpre_yoff\<close>, \<open>wfmpre_xincr\<close>
  raises an exception that is an \<open>Exception\<close>, whatever the transport does: each returns
  the response of its query parsed as a float when the query returned a numeric
  response, and \<open>None\<close> when a transport call (for \<open>wfmpre_ymult\<close> also its \<open>*WAI\<close> write)
  or \<open>float()\<close> raised an \<open>Exception\<close>; the result carries nothing of that exception.
  What a transport call raises that is not an \<open>Exception\<close> (\<open>KeyboardInterrupt\<close>,
  \<open>SystemExit\<close>) is raised to the caller.
\<close>

theorem preamble_queries_catch_Exception:
  "fst (wfmpre_ymult B T w) =
     (case dev_write T ''*WAI'' (dev w) of
        (Inl e, d) \<Rightarrow> if is_Exception e then Inr None else Inl e
      | (Inr u, d) \<Rightarrow> preamble_result B (fst (dev_query T ''WFMPRE:YMULT?'' d)))
   \<and> fst (wfmpre_yzero B T w) = preamble_result B (fst (dev_query T ''WFMPRE:YZERO?'' (dev w)))
   \<and> fst (wfmpre_yoff B T w) = preamble_result B (fst (dev_query T ''WFMPRE:YOFF?'' (dev w)))
   \<and> fst (wfmpre_xincr B T w) = preamble_result B (fst (dev_query T ''WFMPRE:XINCR?'' (dev w)))"
proof (intro conjI)
  show "fst (wfmpre_ymult B T w) =
     (case dev_write T ''*WAI'' (dev w) of
        (Inl e, d) \<Rightarrow> if is_Exception e then Inr None else Inl e
      | (Inr u, d) \<Rightarrow> preamble_result B (fst (dev_query T ''WFMPRE:YMULT?'' d)))"
    by (rule wfmpre_ymult_run)
  show "fst (wfmpre_yzero B T w) =
      preamble_result B (fst (dev_query T ''WFMPRE:YZERO?'' (dev w)))"
    using wfmpre_yzero_run [of B T w "fst (wfmpre_yzero B T w)" "snd (wfmpre_yzero B T w)"]
    by simp
  show "fst (wfmpre_yoff B T w) =
      preamble_result B (fst (dev_query T ''WFMPRE:YOFF?'' (dev w)))"
    using wfmpre_yoff_run [of B T w "fst (wfmpre_yoff B T w)" "snd (wfmpre_yoff B T w)"]
    by simp
  show "fst (wfmpre_xincr B T w) =
      preamble_result B (fst (dev_query T ''WFMPRE:XINCR?'' (dev w)))"
    using wfmpre_xincr_run [of B T w "fst (wfmpre_xincr B T w)" "snd (wfmpre_xincr B T w)"]
    by simp
qed

subsection \<open>The acquisition sequence\<close>

lemma io_bindE:
  assumes "io_bind m f w = (r, w')"
  obtains (raised) e where "m w = (Inl e, w')" "r = Inl e"
        | (returned) x w1 where "m w = (Inr x, w1)" "f x w1 = (r, w')"
  using assms by (auto simp: io_bind_def split: prod.splits sum.splits)

lemma io_liftE:
  assumes "io_lift x w = (r, w')"
  obtains "r = x" "w' = w"
  using assms by (simp add: io_lift_def)

lemma device_writeE:
  assumes "device_write T c w = (r, w')"
  obtains "trace w' = trace w @ [Wrote c r]"
  using assms by (auto simp: device_write_def split: prod.splits)

lemma device_read_rawE:
  assumes "device_read_raw T w = (r, w')"
  obtains "trace w' = trace w @ [ReadRaw r]"
  using assms by (auto simp: device_read_raw_def split: prod.splits)

lemma wfmpre_ymult_trace:
  assumes "wfmpre_ymult B T w = (r, w')"
  shows "case dev_write T ''*WAI'' (dev w) of
           (Inl e, d) \<Rightarrow>
             trace w' = trace w @ [Wrote ''*WAI'' (Inl e)] \<and> (r = Inr None \<or> r = Inl e)
         | (Inr u, d) \<Rightarrow>
             trace w' =
               trace w @ [Wrote ''*WAI'' (Inr ()),
                 Queried ''WFMPRE:YMULT?'' (fst (dev_query T ''WFMPRE:YMULT?'' d))] \<and>
             r = preamble_result B (fst (dev_query T ''WFMPRE:YMULT?'' d))"
  using assms
  by (auto simp: wfmpre_ymult_def wai_def io_defs preamble_result_def
        split: prod.splits sum.splits if_splits)

lemma wfmpre_ymult_cases:
  assumes "wfmpre_ymult B T w = (r, w')"
  shows "(\<exists>e. trace w' = trace w @ [Wrote ''*WAI'' (Inl e)] \<and> (r = Inr None \<or> r = Inl e))
    \<or> (\<exists>res. trace w' = trace w @ [Wrote ''*WAI'' (Inr ()), Queried ''WFMPRE:YMULT?'' res] \<and>
          r = preamble_result B res)"
proof (cases "dev_write T ''*WAI'' (dev w)")
  case (Pair res d)
  with wfmpre_ymult_trace [OF assms] show ?thesis
    by (cases res) auto
qed

lemma wfmpre_ymultE:
  assumes "wfmpre_ymult B T w = (r, w')"
  obtains (wai_caught) e where "trace w' = trace w @ [Wrote ''*WAI'' (Inl e)]" "r = Inr None"
   | (wai_escaped) e where "trace w' = trace w @ [Wrote ''*WAI'' (Inl e)]" "r = Inl e"
   | (escaped) e res where
       "trace w' = trace w @ [Wrote ''*WAI'' (Inr ()), Queried ''WFMPRE:YMULT?'' res]"
       "r = Inl e" "escaping B res"
   | (returned) res where
       "trace w' = trace w @ [Wrote ''*WAI'' (Inr ()), Queried ''WFMPRE:YMULT?'' res]"
       "r = Inr (parsed B res)" "\<not> escaping B res"
  using wfmpre_ymult_cases [OF assms] preamble_result_Inl [of B] preamble_result_Inr [of B]
  by (cases r) blast+

lemma wfmpre_yzeroE:
  assumes "wfmpre_yzero B T w = (r, w')"
  obtains (escaped) e res where "r = Inl e" "escaping B res"
      "trace w' = trace w @ [Queried ''WFMPRE:YZERO?'' res]"
    | (returned) res where "r = Inr (parsed B res)" "\<not> escaping B res"
      "trace w' = trace w @ [Queried ''WFMPRE:YZERO?'' res]"
  using wfmpre_yzero_run [OF assms] preamble_result_Inl [of B] preamble_result_Inr [of B]
  by (cases r) metis+

lemma wfmpre_yoffE:
  assumes "wfmpre_yoff B T w = (r, w')"
  obtains (escaped) e res where "r = Inl e" "escaping B res"
      "trace w' = trace w @ [Queried ''WFMPRE:YOFF?'' res]"
    | (returned) res where "r = Inr (parsed B res)" "\<not> escaping B res"
      "trace w' = trace w @ [Queried ''WFMPRE:YOFF?'' res]"
  using wfmpre_yoff_run [OF assms] preamble_result_Inl [of B] preamble_result_Inr [of B]
  by (cases r) metis+

lemma wfmpre_xincrE:
  assumes "wfmpre_xincr B T w = (r, w')"
  obtains (escaped) e res where "r = Inl e" "escaping B res"
      "trace w' = trace w @ [Queried ''WFMPRE:XINCR?'' res]"
    | (returned) res where "r = Inr (parsed B res)" "\<not> escaping B res"
      "trace w' = trace w @ [Queried ''WFMPRE:XINCR?'' res]"
  using wfmpre_xincr_run [OF assms] preamble_result_Inl [of B] preamble_result_Inr [of B]
  by (cases r) metis+

lemma acquire_waveform_body_shape:
  assumes "acquire_waveform_body B T chan width enc w = (r, w')"
  shows "\<exists>evs. trace w' = trace w @ evs \<and> attempt_shape B chan width enc (isl r) evs"
  using assms
  unfolding acquire_waveform_body_def data_source_def data_width_def data_encoding_def
  apply (elim io_bindE wfmpre_ymultE io_liftE device_writeE wfmpre_yzeroE wfmpre_yoffE
      wfmpre_xincrE device_read_rawE)
  apply (auto simp: attempt_shape_def acquisition_actions_def io_return_def float_of_result_def
      split: option.splits)
  done

lemma acquire_waveform_unfold:
  "acquire_waveform_body B T chan width enc w = (Inl e, w') \<Longrightarrow>
     acquire_waveform B T chan width enc w = acquire_waveform B T chan width enc w'"
  "acquire_waveform_body B T chan width enc w = (Inr res, w') \<Longrightarrow>
     acquire_waveform B T chan width enc w = Some (res, w')"
  by (subst acquire_waveform.simps, simp)+

lemma acquire_waveform_run:
  assumes "acquire_waveform B T chan width enc w = Some y"
  shows "\<exists>failed ok. trace (snd y) = trace w @ concat failed @ ok \<and>
           list_all (attempt_shape B chan width enc True) failed \<and>
           attempt_shape B chan width enc False ok"
  using assms
proof (induction B T chan width enc w y rule: acquire_waveform.raw_induct [rotated 1, consumes 1])
  case (1 loop B T chan width enc w y)
  obtain r w1 where body: "acquire_waveform_body B T chan width enc w = (r, w1)"
    by (cases "acquire_waveform_body B T chan width enc w")
  from acquire_waveform_body_shape [OF body] obtain evs where
    evs: "trace w1 = trace w @ evs" "attempt_shape B chan width enc (isl r) evs"
    by blast
  show ?case
  proof (cases r)
    case (Inr res)
    with 1(2) body have "y = (res, w1)" by simp
    with evs Inr show ?thesis
      by (intro exI [of _ "[]"] exI [of _ evs]) simp
  next
    case (Inl e)
    with 1(2) body have "loop B T chan width enc w1 = Some y" by simp
    from 1(1) [OF this] obtain failed ok where
      rest: "trace (snd y) = trace w1 @ concat failed @ ok"
        "list_all (attempt_shape B chan width enc True) failed"
        "attempt_shape B chan width enc False ok"
      by blast
    with evs Inl show ?thesis
      by (intro exI [of _ "evs # failed"] exI [of _ ok]) simp
  qed
qed







lemma attempt_shape_actions:
  assumes "attempt_shape B chan width enc failed evs"
  shows "map action_of evs \<noteq> [] \<and>
    map action_of evs = take (length (map action_of evs)) (acquisition_actions chan width enc)"
proof -
  from assms have "evs \<noteq> []"
    and "map action_of evs = take (length evs) (acquisition_actions chan width enc)"
    by (simp_all add: attempt_shape_def)
  then show ?thesis by (metis length_map map_is_Nil_conv)
qed

lemma attempt_shape_full:
  assumes "attempt_shape B chan width enc False evs"
  shows "map action_of evs = acquisition_actions chan width enc"
  using assms by (simp add: attempt_shape_def acquisition_actions_def)

text \<open>
  C2, as the source has it. \<open>wfmpre_ymult\<close> calls \<open>self.wai()\<close> before its query, so a
  call that succeeds at once writes \<open>*WAI\<close> between \<open>DATA:ENC\<close> and \<open>WFMPRE:YMULT?\<close>; the
  sequence of the claim has no such command.
\<close>

theorem acquire_waveform_writes_wai_before_gain_query:
 "acquire_waveform whole_numbers mock ''1'' ''1'' ''RPB''
    (start [Accepts, Accepts, Accepts, Accepts, Answers ''2'', Answers ''0'',
            Answers ''127'', Answers ''4'', Accepts, Sends [1, 2, 3]]) =
  Some ((2, Some 0, Some 127, Some 4, [1, 2, 3]),
        \<lparr>dev = [],
         trace = [Wrote ''DATA:SOU CH1'' (Inr ()), Wrote ''DATA:WIDTH 1'' (Inr ()),
                  Wrote ''DATA:ENC RPB'' (Inr ()), Wrote ''*WAI'' (Inr ()),
                  Queried ''WFMPRE:YMULT?'' (Inr ''2''), Queried ''WFMPRE:YZERO?'' (Inr ''0''),
                  Queried ''WFMPRE:YOFF?'' (Inr ''127''), Queried ''WFMPRE:XINCR?'' (Inr ''4''),
                  Wrote ''CURVE?'' (Inr ()), ReadRaw (Inr [1, 2, 3])],
         stdout = []\<rparr>)
  \<and> claimed_actions ''1'' ''1'' ''RPB'' =
      [Write ''DATA:SOU CH1'', Write ''DATA:WIDTH 1'', Write ''DATA:ENC RPB'',
       Query ''WFMPRE:YMULT?'', Query ''WFMPRE:YZERO?'', Query ''WFMPRE:YOFF?'',
       Query ''WFMPRE:XINCR?'', Write ''CURVE?'']"
  by (subst acquire_waveform.simps) (simp add: dpo_defs io_defs mock_defs claimed_actions_def)

text \<open>
  C2, amended. For every channel, width and encoding, the last ten transport calls of
  a call of \<open>acquire_waveform\<close> that returns are, in this order and with nothing between
  them: write \<open>DATA:SOU CH{chan}\<close>, write \<open>DATA:WIDTH {width}\<close>, write \<open>DATA:ENC {enc}\<close>,
  write \<open>*WAI\<close>, query \<open>WFMPRE:YMULT?\<close>, query \<open>WFMPRE:YZERO?\<close>, query \<open>WFMPRE:YOFF?\<close>,
  query \<open>WFMPRE:XINCR?\<close>, write \<open>CURVE?\<close>, read the raw block. What the call did before
  them is its failed attempts, each a non-empty prefix of the same sequence.
\<close>

theorem acquire_waveform_command_sequence:
  assumes "acquire_waveform B T chan width enc w = Some (res, w')"
  shows "\<exists>failed.
           map action_of (drop (length (trace w)) (trace w')) =
             concat failed @ acquisition_actions chan width enc \<and>
           list_all (\<lambda>a. a \<noteq> [] \<and> a = take (length a) (acquisition_actions chan width enc))
             failed"
proof -
  from acquire_waveform_run [OF assms] obtain failed ok where
    t: "trace w' = trace w @ concat failed @ ok"
    and f: "list_all (attempt_shape B chan width enc True) failed"
    and k: "attempt_shape B chan width enc False ok"
    by auto
  have "map action_of (drop (length (trace w)) (trace w')) =
          concat (map (map action_of) failed) @ acquisition_actions chan width enc"
    using t attempt_shape_full [OF k] by (simp add: map_concat)
  moreover have "list_all (\<lambda>a. a \<noteq> [] \<and> a = take (length a) (acquisition_actions chan width enc))
          (map (map action_of) failed)"
    using f attempt_shape_actions [of B chan width enc True]
    unfolding list_all_iff set_map by blast
  ultimately show ?thesis by blast
qed

lemma width_write_raises_once:
 "acquire_waveform whole_numbers mock ''2'' ''1'' ''RPB''
    (start [Accepts, Raises VisaIOError,
            Accepts, Accepts, Accepts, Accepts, Answers ''2'', Answers ''0'',
            Answers ''127'', Answers ''4'', Accepts, Sends [1, 2, 3]]) =
  Some ((2, Some 0, Some 127, Some 4, [1, 2, 3]),
        \<lparr>dev = [],
         trace = [Wrote ''DATA:SOU CH2'' (Inr ()), Wrote ''DATA:WIDTH 1'' (Inl VisaIOError),
                  Wrote ''DATA:SOU CH2'' (Inr ()), Wrote ''DATA:WIDTH 1'' (Inr ()),
                  Wrote ''DATA:ENC RPB'' (Inr ()), Wrote ''*WAI'' (Inr ()),
                  Queried ''WFMPRE:YMULT?'' (Inr ''2''), Queried ''WFMPRE:YZERO?'' (Inr ''0''),
                  Queried ''WFMPRE:YOFF?'' (Inr ''127''), Queried ''WFMPRE:XINCR?'' (Inr ''4''),
                  Wrote ''CURVE?'' (Inr ()), ReadRaw (Inr [1, 2, 3])],
         stdout = []\<rparr>)"
  by (subst acquire_waveform.simps, simp add: dpo_defs io_defs mock_defs)+

theorem acquire_waveform_command_sequence_witness:
  "\<exists>failed.
     [Write ''DATA:SOU CH2'', Write ''DATA:WIDTH 1'',
      Write ''DATA:SOU CH2'', Write ''DATA:WIDTH 1'', Write ''DATA:ENC RPB'', Write ''*WAI'',
      Query ''WFMPRE:YMULT?'', Query ''WFMPRE:YZERO?'', Query ''WFMPRE:YOFF?'',
      Query ''WFMPRE:XINCR?'', Write ''CURVE?'', Read_raw] =
       concat failed @ acquisition_actions ''2'' ''1'' ''RPB'' \<and>
     list_all (\<lambda>a. a \<noteq> [] \<and> a = take (length a) (acquisition_actions ''2'' ''1'' ''RPB''))
       failed"
  using acquire_waveform_command_sequence [OF width_write_raises_once]
  by (simp add: start_def)



lemma succeeded_not_aborting: "succeeded B ev \<Longrightarrow> \<not> aborting B ev"
  by (cases ev) (auto simp: parsed_def escaping_def split: sum.splits)

lemma curve_raised_aborting: "curve_raised ev \<Longrightarrow> aborting B ev"
  by (cases ev) auto

lemma attempt_shape_selects_once:
  assumes "attempt_shape B chan width enc failed evs"
  shows "action_of (hd evs) = Write (''DATA:SOU CH'' @ chan) \<and>
         filter (\<lambda>a. a = Write (''DATA:SOU CH'' @ chan)) (map action_of evs) =
           [Write (''DATA:SOU CH'' @ chan)]"
proof -
  from assms obtain ev rest where evs: "evs = ev # rest"
    by (cases evs) (auto simp: attempt_shape_def)
  let ?later = "[Write (''DATA:WIDTH '' @ width), Write (''DATA:ENC '' @ enc), Write ''*WAI'',
      Query ''WFMPRE:YMULT?'', Query ''WFMPRE:YZERO?'', Query ''WFMPRE:YOFF?'',
      Query ''WFMPRE:XINCR?'', Write ''CURVE?'', Read_raw]"
  from assms evs have hd: "action_of ev = Write (''DATA:SOU CH'' @ chan)"
    and tl: "map action_of rest = take (length rest) ?later"
    by (simp_all add: attempt_shape_def acquisition_actions_def)
  have "set (map action_of rest) \<subseteq> set ?later"
    by (subst tl) (rule set_take_subset)
  then have "filter (\<lambda>a. a = Write (''DATA:SOU CH'' @ chan)) (map action_of rest) = []"
    by (auto simp: filter_empty_conv)
  with hd evs show ?thesis by simp
qed

text \<open>
  C6. If the transport raises on the \<open>CURVE?\<close> block read (the \<open>CURVE?\<close> write or the raw
  read, every earlier step having succeeded) in the first and in the second attempt of
  \<open>acquire_waveform\<close>, and every step succeeds in the third, then the call returns the
  third attempt's values: it made exactly three attempts, each starting from the
  select-data-source write, the third running the full sequence.
\<close>

theorem acquire_waveform_third_attempt:
  assumes a1: "acquire_waveform_body B T chan width enc w = (r1, w1)"
    and t1: "trace w1 = trace w @ evs1" and f1: "curve_failure B evs1"
    and a2: "acquire_waveform_body B T chan width enc w1 = (r2, w2)"
    and t2: "trace w2 = trace w1 @ evs2" and f2: "curve_failure B evs2"
    and a3: "acquire_waveform_body B T chan width enc w2 = (r3, w3)"
    and t3: "trace w3 = trace w2 @ evs3" and s3: "list_all (succeeded B) evs3"
  shows "\<exists>res. r3 = Inr res \<and>
           acquire_waveform B T chan width enc w = Some (res, w3) \<and>
           trace w3 = trace w @ evs1 @ evs2 @ evs3 \<and>
           map (\<lambda>evs. action_of (hd evs)) [evs1, evs2, evs3] =
             replicate 3 (Write (''DATA:SOU CH'' @ chan)) \<and>
           length (filter (\<lambda>a. a = Write (''DATA:SOU CH'' @ chan))
                    (map action_of (evs1 @ evs2 @ evs3))) = 3 \<and>
           map action_of evs3 = acquisition_actions chan width enc"
proof -
  from acquire_waveform_body_shape [OF a1] t1
  have sh1: "attempt_shape B chan width enc (isl r1) evs1" by auto
  from acquire_waveform_body_shape [OF a2] t2
  have sh2: "attempt_shape B chan width enc (isl r2) evs2" by auto
  from acquire_waveform_body_shape [OF a3] t3
  have sh3: "attempt_shape B chan width enc (isl r3) evs3" by auto
  from sh1 f1 have "isl r1"
    by (simp add: attempt_shape_def curve_failure_def curve_raised_aborting)
  then obtain e1 where r1: "r1 = Inl e1" by (cases r1) auto
  from sh2 f2 have "isl r2"
    by (simp add: attempt_shape_def curve_failure_def curve_raised_aborting)
  then obtain e2 where r2: "r2 = Inl e2" by (cases r2) auto
  from sh3 have "evs3 \<noteq> []" by (simp add: attempt_shape_def)
  with s3 have "succeeded B (last evs3)" by (simp add: list_all_iff)
  with sh3 have "\<not> isl r3"
    by (simp add: attempt_shape_def succeeded_not_aborting)
  then obtain res where r3: "r3 = Inr res" by (cases r3) auto
  have run: "acquire_waveform B T chan width enc w = Some (res, w3)"
    using acquire_waveform_unfold(1) [OF a1 [unfolded r1]]
      acquire_waveform_unfold(1) [OF a2 [unfolded r2]]
      acquire_waveform_unfold(2) [OF a3 [unfolded r3]]
    by simp
  have full: "map action_of evs3 = acquisition_actions chan width enc"
    using sh3 \<open>\<not> isl r3\<close> by (simp add: attempt_shape_full)
  have whole: "trace w3 = trace w @ evs1 @ evs2 @ evs3"
    using t1 t2 t3 by simp
  note sel = attempt_shape_selects_once [OF sh1] attempt_shape_selects_once [OF sh2]
    attempt_shape_selects_once [OF sh3]
  have heads: "map (\<lambda>evs. action_of (hd evs)) [evs1, evs2, evs3] =
      replicate 3 (Write (''DATA:SOU CH'' @ chan))"
    using sel by (simp add: numeral_3_eq_3)
  have count: "length (filter (\<lambda>a. a = Write (''DATA:SOU CH'' @ chan))
      (map action_of (evs1 @ evs2 @ evs3))) = 3"
    using sel by simp
  from r3 run whole heads count full show ?thesis by blast
qed

lemma sample_attempts:
  "acquire_waveform_body whole_numbers mock ''1'' ''1'' ''RPB''
     (start (replies_curve_raises @ replies_curve_raises @ replies_clean)) =
   (Inl VisaIOError,
    \<lparr>dev = replies_curve_raises @ replies_clean, trace = events_curve_raises, stdout = []\<rparr>)"
  "acquire_waveform_body whole_numbers mock ''1'' ''1'' ''RPB''
     \<lparr>dev = replies_curve_raises @ replies_clean, trace = events_curve_raises, stdout = []\<rparr> =
   (Inl VisaIOError,
    \<lparr>dev = replies_clean, trace = events_curve_raises @ events_curve_raises, stdout = []\<rparr>)"
  "acquire_waveform_body whole_numbers mock ''1'' ''1'' ''RPB''
     \<lparr>dev = replies_clean, trace = events_curve_raises @ events_curve_raises, stdout = []\<rparr> =
   (Inr (2, Some 0, Some 127, Some 4, [1, 2, 3]),
    \<lparr>dev = [], trace = events_curve_raises @ events_curve_raises @ events_clean,
     stdout = []\<rparr>)"
  by (simp_all add: dpo_defs io_defs mock_defs sample_defs)

lemma sample_events:
  "curve_failure whole_numbers events_curve_raises"
  "list_all (succeeded whole_numbers) events_clean"
  by (simp_all add: curve_failure_def sample_defs parsed_def mock_defs)

lemma sample_traces:
  "trace \<lparr>dev = replies_curve_raises @ replies_clean, trace = events_curve_raises,
      stdout = []\<rparr> =
     trace (start (replies_curve_raises @ replies_curve_raises @ replies_clean)) @
       events_curve_raises"
  "trace \<lparr>dev = replies_clean, trace = events_curve_raises @ events_curve_raises,
      stdout = []\<rparr> =
     trace \<lparr>dev = replies_curve_raises @ replies_clean, trace = events_curve_raises,
       stdout = []\<rparr> @ events_curve_raises"
  "trace \<lparr>dev = ([] :: reply list),
      trace = events_curve_raises @ events_curve_raises @ events_clean, stdout = []\<rparr> =
     trace \<lparr>dev = replies_clean, trace = events_curve_raises @ events_curve_raises,
       stdout = []\<rparr> @ events_clean"
  by (simp_all add: start_def)

theorem acquire_waveform_third_attempt_witness:
  "acquire_waveform whole_numbers mock ''1'' ''1'' ''RPB''
     (start (replies_curve_raises @ replies_curve_raises @ replies_clean)) =
   Some ((2, Some 0, Some 127, Some 4, [1, 2, 3]),
     \<lparr>dev = [], trace = events_curve_raises @ events_curve_raises @ events_clean,
      stdout = []\<rparr>)
   \<and> length (filter (\<lambda>a. a = Write (''DATA:SOU CH'' @ ''1''))
        (map action_of (events_curve_raises @ events_curve_raises @ events_clean))) = 3"
proof -
  from acquire_waveform_third_attempt
    [OF sample_attempts(1) sample_traces(1) sample_events(1)
        sample_attempts(2) sample_traces(2) sample_events(1)
        sample_attempts(3) sample_traces(3) sample_events(2)]
  obtain res where "Inr (2, Some 0, Some 127, Some 4, [1, 2, 3]) = Inr res"
    and "acquire_waveform whole_numbers mock ''1'' ''1'' ''RPB''
      (start (replies_curve_raises @ replies_curve_raises @ replies_clean)) =
      Some (res, \<lparr>dev = [],
        trace = events_curve_raises @ events_curve_raises @ events_clean, stdout = []\<rparr>)"
    and "length (filter (\<lambda>a. a = Write (''DATA:SOU CH'' @ ''1''))
        (map action_of (events_curve_raises @ events_curve_raises @ events_clean))) = 3"
    by blast
  then show ?thesis by blast
qed

subsection \<open>The two retry loops\<close>














lemma attempt_shape_no_sleep:
  assumes "attempt_shape B chan width enc failed evs"
  shows "\<not> list_ex is_sleep evs"
proof
  assume "list_ex is_sleep evs"
  then obtain ev where ev: "ev \<in> set evs" "is_sleep ev"
    by (auto simp: list_ex_iff)
  from ev(2) obtain ms where "ev = Slept ms" by (cases ev) auto
  with ev have "Sleep ms \<in> set (map action_of evs)" by force
  also from assms have "set (map action_of evs) \<subseteq> set (acquisition_actions chan width enc)"
    by (metis attempt_shape_def set_take_subset)
  finally show False by (simp add: acquisition_actions_def)
qed

text \<open>
  C7, as the source has it. \<open>acquire_waveform\<close> has no \<open>sleep\<close>: here the first attempt
  fails on its first write and the second attempt starts at once.
\<close>

theorem acquire_waveform_retries_without_sleep:
 "acquire_waveform whole_numbers mock ''1'' ''1'' ''RPB''
    (start [Raises VisaIOError,
            Accepts, Accepts, Accepts, Accepts, Answers ''2'', Answers ''0'',
            Answers ''127'', Answers ''4'', Accepts, Sends [1, 2, 3]]) =
  Some ((2, Some 0, Some 127, Some 4, [1, 2, 3]),
        \<lparr>dev = [],
         trace = [Wrote ''DATA:SOU CH1'' (Inl VisaIOError),
                  Wrote ''DATA:SOU CH1'' (Inr ()), Wrote ''DATA:WIDTH 1'' (Inr ()),
                  Wrote ''DATA:ENC RPB'' (Inr ()), Wrote ''*WAI'' (Inr ()),
                  Queried ''WFMPRE:YMULT?'' (Inr ''2''), Queried ''WFMPRE:YZERO?'' (Inr ''0''),
                  Queried ''WFMPRE:YOFF?'' (Inr ''127''), Queried ''WFMPRE:XINCR?'' (Inr ''4''),
                  Wrote ''CURVE?'' (Inr ()), ReadRaw (Inr [1, 2, 3])],
         stdout = []\<rparr>)"
  by (subst acquire_waveform.simps, simp add: dpo_defs io_defs mock_defs)+

text \<open>
  C7, amended. The retry loop of \<open>acquire_waveform\<close> never sleeps: no attempt, and no
  call that returns, adds a sleep to the trace. The poll of \<open>wait_until_ready\<close> sleeps
  for the fixed 0.1 s after each query that failed with an exception and at no other
  point.
\<close>

theorem sleeps_of_the_retry_loops:
  "(\<exists>evs. trace (snd (acquire_waveform_body B T chan width enc w)) = trace w @ evs \<and>
          \<not> list_ex is_sleep evs)
   \<and> (\<forall>res w'. acquire_waveform B T chan width enc w = Some (res, w') \<longrightarrow>
        (\<exists>evs. trace w' = trace w @ evs \<and> \<not> list_ex is_sleep evs))
   \<and> (\<forall>r w'. wait_until_ready B T w = Some (r, w') \<longrightarrow>
        (\<exists>evs. trace w' = trace w @ evs \<and> fixed_sleeps B evs))"
proof (intro conjI allI impI)
  show "\<exists>evs. trace (snd (acquire_waveform_body B T chan width enc w)) = trace w @ evs \<and>
          \<not> list_ex is_sleep evs"
    using acquire_waveform_body_shape [OF surjective_pairing] attempt_shape_no_sleep
    by blast
next
  fix res w'
  assume "acquire_waveform B T chan width enc w = Some (res, w')"
  from acquire_waveform_run [OF this] obtain failed ok where
    t: "trace w' = trace w @ concat failed @ ok"
    and f: "list_all (attempt_shape B chan width enc True) failed"
    and k: "attempt_shape B chan width enc False ok"
    by auto
  have "\<not> list_ex is_sleep (concat failed @ ok)"
    using f attempt_shape_no_sleep [OF k] attempt_shape_no_sleep [of B chan width enc True]
    by (auto simp: list_ex_iff list_all_iff)
  with t show "\<exists>evs. trace w' = trace w @ evs \<and> \<not> list_ex is_sleep evs"
    by blast
next
  fix r w'
  assume "wait_until_ready B T w = Some (r, w')"
  from wait_until_ready_run [OF this] fixed_sleeps_poll_events
  show "\<exists>evs. trace w' = trace w @ evs \<and> fixed_sleeps B evs"
    by blast
qed


lemma enc_write_raises_once:
 "acquire_waveform whole_numbers mock ''3'' ''2'' ''RPB''
    (start [Accepts, Accepts, Raises VisaIOError,
            Accepts, Accepts, Accepts, Accepts, Answers ''2'', Answers ''0'',
            Answers ''127'', Answers ''4'', Accepts, Sends [1, 2, 3]]) =
  Some ((2, Some 0, Some 127, Some 4, [1, 2, 3]),
        \<lparr>dev = [],
         trace = [Wrote ''DATA:SOU CH3'' (Inr ()), Wrote ''DATA:WIDTH 2'' (Inr ()),
                  Wrote ''DATA:ENC RPB'' (Inl VisaIOError),
                  Wrote ''DATA:SOU CH3'' (Inr ()), Wrote ''DATA:WIDTH 2'' (Inr ()),
                  Wrote ''DATA:ENC RPB'' (Inr ()), Wrote ''*WAI'' (Inr ()),
                  Queried ''WFMPRE:YMULT?'' (Inr ''2''), Queried ''WFMPRE:YZERO?'' (Inr ''0''),
                  Queried ''WFMPRE:YOFF?'' (Inr ''127''), Queried ''WFMPRE:XINCR?'' (Inr ''4''),
                  Wrote ''CURVE?'' (Inr ()), ReadRaw (Inr [1, 2, 3])],
         stdout = []\<rparr>)"
  by (subst acquire_waveform.simps, simp add: dpo_defs io_defs mock_defs)+

theorem sleeps_of_the_retry_loops_witness:
  "(\<exists>evs.
      [Wrote ''DATA:SOU CH3'' (Inr ()), Wrote ''DATA:WIDTH 2'' (Inr ()),
       Wrote ''DATA:ENC RPB'' (Inl VisaIOError),
       Wrote ''DATA:SOU CH3'' (Inr ()), Wrote ''DATA:WIDTH 2'' (Inr ()),
       Wrote ''DATA:ENC RPB'' (Inr ()), Wrote ''*WAI'' (Inr ()),
       Queried ''WFMPRE:YMULT?'' (Inr ''2''), Queried ''WFMPRE:YZERO?'' (Inr ''0''),
       Queried ''WFMPRE:YOFF?'' (Inr ''127''), Queried ''WFMPRE:XINCR?'' (Inr ''4''),
       Wrote ''CURVE?'' (Inr ()), ReadRaw (Inr [1, 2, 3])] = evs \<and> \<not> list_ex is_sleep evs)
   \<and> (\<exists>evs.
      [Queried ''*OPC?'' (Inl VisaIOError), Slept 100,
       Queried ''*OPC?'' (Inr ''busy''), Slept 100,
       Queried ''*OPC?'' (Inr ''0''), Queried ''*OPC?'' (Inr ''1'')] = evs \<and>
      fixed_sleeps whole_numbers evs)"
  using
    sleeps_of_the_retry_loops [where B = whole_numbers and T = mock and chan = "''3''"
      and width = "''2''" and enc = "''RPB''"
      and w = "start [Accepts, Accepts, Raises VisaIOError,
            Accepts, Accepts, Accepts, Accepts, Answers ''2'', Answers ''0'',
            Answers ''127'', Answers ''4'', Accepts, Sends [1, 2, 3]]",
      THEN conjunct2, THEN conjunct1, rule_format, OF enc_write_raises_once]
    sleeps_of_the_retry_loops [where B = whole_numbers and T = mock
      and w = "start [Raises VisaIOError, Answers ''busy'', Answers ''0'', Answers ''1'']",
      THEN conjunct2, THEN conjunct2, rule_format, OF flaky_poll]
  by (simp add: start_def)

subsection \<open>Connecting\<close>

lemma connect_usb_instrument_cases:
  assumes "connect_usb_instrument V addr = Inr c"
  shows "(\<exists>d. c = (Some d, Some addr, ''Connected'')) \<or> c = (None, None, ''Not Connected'')"
  using assms unfolding connect_usb_instrument_def
  by (auto split: sum.splits if_splits)

lemma connect_ethernet_instrument_cases:
  assumes "connect_ethernet_instrument V addr port use_socket = Inr c"
  shows "(\<exists>d. c = (Some d, Some (resource_str addr port use_socket), ''Connected''))
         \<or> c = (None, None, ''Not Connected'')"
  using assms unfolding connect_ethernet_instrument_def
  by (auto split: sum.splits if_splits)

lemma lab_manager:
  "get_resource_manager lab =
     Inr (\<lambda>name.
        if name = ''USB0::1689::1025::C1::INSTR'' then Inr []
        else if name = ''TCPIP0::10.0.142.3::INSTR'' then Inr []
        else Inl VisaIOError)"
  by (simp add: lab_def get_resource_manager_def)

lemma str_int_example: "str_int 5025 = ''5025''"
  by (simp add: str_int_def str_nat.simps)

lemma resource_str_examples:
  "resource_str ''10.0.142.3'' 5025 False = ''TCPIP0::10.0.142.3::INSTR''"
  "resource_str ''10.0.142.9'' 5025 False = ''TCPIP0::10.0.142.9::INSTR''"
  "resource_str ''10.0.142.3'' 5025 True = ''TCPIP0::10.0.142.3::5025::SOCKET''"
  by (simp_all add: resource_str_def str_int_example)

text \<open>
  C9. For every address, \<open>connect_usb_instrument\<close> and \<open>connect_ethernet_instrument\<close>
  return status \<open>"Connected"\<close> with the opened device (not \<open>None\<close>) when opening the VISA
  resource succeeds, and exactly \<open>(None, None, "Not Connected")\<close> when opening it raises
  \<open>VisaIOError\<close>; a returned triple never has another form.
\<close>

theorem connect_status:
  "(get_resource_manager V = Inr rm \<and> rm addr = Inr d \<longrightarrow>
      connect_usb_instrument V addr = Inr (Some d, Some addr, ''Connected''))
   \<and> (get_resource_manager V = Inr rm \<and> rm addr = Inl VisaIOError \<longrightarrow>
      connect_usb_instrument V addr = Inr (None, None, ''Not Connected''))
   \<and> (connect_usb_instrument V addr = Inr c \<longrightarrow>
      (\<exists>d'. c = (Some d', Some addr, ''Connected'')) \<or> c = (None, None, ''Not Connected''))
   \<and> (get_resource_manager V = Inr rm \<and> rm (resource_str addr port use_socket) = Inr d \<longrightarrow>
      connect_ethernet_instrument V addr port use_socket =
        Inr (Some d, Some (resource_str addr port use_socket), ''Connected''))
   \<and> (get_resource_manager V = Inr rm \<and>
        rm (resource_str addr port use_socket) = Inl VisaIOError \<longrightarrow>
      connect_ethernet_instrument V addr port use_socket = Inr (None, None, ''Not Connected''))
   \<and> (connect_ethernet_instrument V addr port use_socket = Inr c \<longrightarrow>
      (\<exists>d'. c = (Some d', Some (resource_str addr port use_socket), ''Connected''))
      \<or> c = (None, None, ''Not Connected''))"
proof (intro conjI impI)
  show "(\<exists>d'. c = (Some d', Some addr, ''Connected'')) \<or> c = (None, None, ''Not Connected'')"
    if "connect_usb_instrument V addr = Inr c"
    using that by (rule connect_usb_instrument_cases)
  show "(\<exists>d'. c = (Some d', Some (resource_str addr port use_socket), ''Connected''))
      \<or> c = (None, None, ''Not Connected'')"
    if "connect_ethernet_instrument V addr port use_socket = Inr c"
    using that by (rule connect_ethernet_instrument_cases)
qed (simp_all add: connect_usb_instrument_def connect_ethernet_instrument_def)


theorem connect_status_witness:
  "connect_usb_instrument lab ''USB0::1689::1025::C1::INSTR'' =
     Inr (Some [], Some ''USB0::1689::1025::C1::INSTR'', ''Connected'')
   \<and> connect_usb_instrument lab ''USB0::1::INSTR'' = Inr (None, None, ''Not Connected'')
   \<and> connect_ethernet_instrument lab ''10.0.142.3'' 5025 False =
        Inr (Some [], Some ''TCPIP0::10.0.142.3::INSTR'', ''Connected'')
   \<and> connect_ethernet_instrument lab ''10.0.142.3'' 5025 True =
        Inr (None, None, ''Not Connected'')"
proof -
  let ?rm = "\<lambda>name.
        if name = ''USB0::1689::1025::C1::INSTR'' then Inr ([] :: reply list)
        else if name = ''TCPIP0::10.0.142.3::INSTR'' then Inr []
        else Inl VisaIOError"
  show ?thesis
    using
      connect_status [where V = lab and rm = ?rm and addr = "''USB0::1689::1025::C1::INSTR''"
        and d = "[]" and port = 5025 and use_socket = False]
      connect_status [where V = lab and rm = ?rm and addr = "''USB0::1::INSTR''"
        and port = 5025 and use_socket = False]
      connect_status [where V = lab and rm = ?rm and addr = "''10.0.142.3''"
        and d = "[]" and port = 5025 and use_socket = False]
      connect_status [where V = lab and rm = ?rm and addr = "''10.0.142.3''"
        and port = 5025 and use_socket = True]
    by (simp add: lab_manager resource_str_examples)
qed

subsection \<open>Constructing the driver\<close>

lemma set_device_timeout_None:
  "device self = None \<Longrightarrow> set_device_timeout T ms self = Inl AttributeError"
  by (simp add: set_device_timeout_def)

lemma set_device_timeout_Inr:
  assumes "set_device_timeout T ms self = Inr self'"
  shows "device self \<noteq> None \<and> device self' \<noteq> None \<and> status self' = status self"
  using assms by (auto simp: set_device_timeout_def split: option.splits sum.splits)

text \<open>
  C10. \<open>DPO4000.__init__\<close> raises \<open>AttributeError\<close> when \<open>connection_method\<close> is neither
  \<open>"USB"\<close> nor \<open>"IP"\<close> and when the connection attempt came back \<open>"Not Connected"\<close>
  (the timeout is assigned on \<open>None\<close>); so every instance it does construct has status
  \<open>"Connected"\<close> and a device that is not \<open>None\<close>.
\<close>

theorem init_connected_or_raises:
  "(connection_method \<noteq> ''USB'' \<and> connection_method \<noteq> ''IP'' \<longrightarrow>
      DPO4000_init T V connection_method addr = Inl AttributeError)
   \<and> (connection_method = ''USB'' \<and>
        connect_usb_instrument V addr = Inr (None, None, ''Not Connected'') \<longrightarrow>
      DPO4000_init T V connection_method addr = Inl AttributeError)
   \<and> (connection_method = ''IP'' \<and>
        connect_ethernet_instrument V addr 5025 False = Inr (None, None, ''Not Connected'') \<longrightarrow>
      DPO4000_init T V connection_method addr = Inl AttributeError)
   \<and> (DPO4000_init T V connection_method addr = Inr self \<longrightarrow>
      status self = ''Connected'' \<and> device self \<noteq> None \<and>
      (connection_method = ''USB'' \<or> connection_method = ''IP''))"
proof -
  have neither: "DPO4000_init T V connection_method addr = Inl AttributeError"
    if "connection_method \<noteq> ''USB'' \<and> connection_method \<noteq> ''IP''"
    using that by (simp add: DPO4000_init_def)
  have usb_down: "DPO4000_init T V connection_method addr = Inl AttributeError"
    if "connection_method = ''USB'' \<and>
        connect_usb_instrument V addr = Inr (None, None, ''Not Connected'')"
    using that by (simp add: DPO4000_init_def set_device_timeout_None)
  have ip_down: "DPO4000_init T V connection_method addr = Inl AttributeError"
    if "connection_method = ''IP'' \<and>
        connect_ethernet_instrument V addr 5025 False = Inr (None, None, ''Not Connected'')"
    using that by (simp add: DPO4000_init_def set_device_timeout_None)
  have built: "status self = ''Connected'' \<and> device self \<noteq> None \<and>
      (connection_method = ''USB'' \<or> connection_method = ''IP'')"
    if ok: "DPO4000_init T V connection_method addr = Inr self"
  proof -
    from ok consider (usb) "connection_method = ''USB''" | (ip) "connection_method = ''IP''"
      by (auto simp: DPO4000_init_def split: if_splits)
    then show ?thesis
    proof cases
      case usb
      with ok obtain c where c: "connect_usb_instrument V addr = Inr c"
        by (auto simp: DPO4000_init_def split: sum.splits)
      from connect_usb_instrument_cases [OF c] ok usb c show ?thesis
        by (auto simp: DPO4000_init_def set_device_timeout_None dest: set_device_timeout_Inr)
    next
      case ip
      with ok obtain c where c: "connect_ethernet_instrument V addr 5025 False = Inr c"
        by (auto simp: DPO4000_init_def split: sum.splits)
      from connect_ethernet_instrument_cases [OF c] ok ip c show ?thesis
        by (auto simp: DPO4000_init_def set_device_timeout_None dest: set_device_timeout_Inr)
    qed
  qed
  from neither usb_down ip_down built show ?thesis by blast
qed

lemma lab_connections:
  "connect_usb_instrument lab ''USB0::1::INSTR'' = Inr (None, None, ''Not Connected'')"
  "connect_ethernet_instrument lab ''10.0.142.9'' 5025 False =
     Inr (None, None, ''Not Connected'')"
  "connect_ethernet_instrument lab ''10.0.142.3'' 5025 False =
     Inr (Some [], Some ''TCPIP0::10.0.142.3::INSTR'', ''Connected'')"
  by (simp_all add: connect_usb_instrument_def connect_ethernet_instrument_def lab_manager
        resource_str_examples)

lemma init_example:
  "DPO4000_init mock lab ''IP'' ''10.0.142.3'' =
     Inr \<lparr>device = Some [], address = Some ''TCPIP0::10.0.142.3::INSTR'',
          status = ''Connected'', connected_with = Some ''Ethernet''\<rparr>"
  by (simp add: DPO4000_init_def lab_connections set_device_timeout_def mock_def)

theorem init_connected_or_raises_witness:
  "DPO4000_init mock lab ''GPIB'' ''7'' = Inl AttributeError
   \<and> DPO4000_init mock lab ''USB'' ''USB0::1::INSTR'' = Inl AttributeError
   \<and> DPO4000_init mock lab ''IP'' ''10.0.142.9'' = Inl AttributeError
   \<and> DPO4000_init mock lab ''IP'' ''10.0.142.3'' =
        Inr \<lparr>device = Some [], address = Some ''TCPIP0::10.0.142.3::INSTR'',
             status = ''Connected'', connected_with = Some ''Ethernet''\<rparr>
   \<and> status \<lparr>device = Some ([] :: reply list), address = Some ''TCPIP0::10.0.142.3::INSTR'',
             status = ''Connected'', connected_with = Some ''Ethernet''\<rparr> = ''Connected''"
  using
    init_connected_or_raises [where connection_method = "''GPIB''" and T = mock and V = lab
      and addr = "''7''"]
    init_connected_or_raises [where connection_method = "''USB''" and T = mock and V = lab
      and addr = "''USB0::1::INSTR''"]
    init_connected_or_raises [where connection_method = "''IP''" and T = mock and V = lab
      and addr = "''10.0.142.9''"]
    init_connected_or_raises [where connection_method = "''IP''" and T = mock and V = lab
      and addr = "''10.0.142.3''"
      and self = "\<lparr>device = Some [], address = Some ''TCPIP0::10.0.142.3::INSTR'',
        status = ''Connected'', connected_with = Some ''Ethernet''\<rparr>"]
  by (simp add: lab_connections init_example)

end
